theory Spec2Isabelle
  imports Main "HOL-Library.AList"
begin

section \<open>Python values, exceptions and dictionaries\<close>

text \<open>
  The values a decoded property list can hold, together with the two kinds of value that
  \<open>Package.__init__\<close> builds itself (tuples and \<open>pathlib.Path\<close> objects). A \<open>Path\<close> is kept
  as the string it was built from. A Python \<open>dict\<close> keeps its keys in insertion order, so
  it is an association list.
\<close>

datatype pyval =
    PyNone
  | PyBool bool
  | PyInt int
  | PyStr string
  | PyPath string
  | PyTuple "pyval list"
  | PyList "pyval list"
  | PyDict "(string \<times> pyval) list"

text \<open>
  Exceptions are values. \<open>AttributeError\<close> carries the name of the missing attribute and
  \<open>FileNotFoundError\<close> the argument it was raised with; the argument of a \<open>KeyError\<close> is
  never read and is left out. \<open>Unmodelled\<close> is not a Python
  exception: it marks a run on a value outside the declared field type \<open>list[str]\<close>, which
  the model of \<open>compute_stage\<close> does not follow.
\<close>

datatype error =
    AttributeError string
  | TypeError
  | KeyError
  | FileNotFoundError string
  | ExpatError
  | ValueError
  | InvalidFileException
  | OSError
  | StreamError
  | RecursionError
  | ReadError
  | Unmodelled

text \<open>\<open>d.get(k)\<close>, \<open>k in d\<close>, \<open>d[k] = v\<close> and \<open>del d[k]\<close> on an insertion-ordered dict.\<close>

definition dict_get :: "('k \<times> 'v) list \<Rightarrow> 'k \<Rightarrow> 'v option" where
  "dict_get d k = map_of d k"

definition dict_contains :: "('k \<times> 'v) list \<Rightarrow> 'k \<Rightarrow> bool" where
  "dict_contains d k = (k \<in> set (map fst d))"

definition dict_set :: "('k \<times> 'v) list \<Rightarrow> 'k \<Rightarrow> 'v \<Rightarrow> ('k \<times> 'v) list" where
  "dict_set d k v = AList.update k v d"

definition dict_del :: "('k \<times> 'v) list \<Rightarrow> 'k \<Rightarrow> ('k \<times> 'v) list" where
  "dict_del d k = AList.delete k d"

section \<open>String methods\<close>

text \<open>
  A \<open>str\<close> is the list of its characters. \<open>s.partition(c)\<close> and \<open>s.rpartition(c)\<close> for a
  one-character separator, as the source calls them: the parts around the first (last)
  occurrence, or \<open>(s, "", "")\<close> (\<open>("", "", s)\<close>) when the separator does not occur.
\<close>

definition str_partition :: "string \<Rightarrow> char \<Rightarrow> string \<times> string \<times> string" where
  "str_partition s c =
     (case dropWhile (\<lambda>x. x \<noteq> c) s of
        [] \<Rightarrow> (s, [], [])
      | _ # after \<Rightarrow> (takeWhile (\<lambda>x. x \<noteq> c) s, [c], after))"

definition str_rpartition :: "string \<Rightarrow> char \<Rightarrow> string \<times> string \<times> string" where
  "str_rpartition s c =
     (case dropWhile (\<lambda>x. x \<noteq> c) (rev s) of
        [] \<Rightarrow> ([], [], s)
      | _ # front \<Rightarrow> (rev front, [c], rev (takeWhile (\<lambda>x. x \<noteq> c) (rev s))))"

text \<open>\<open>k.replace("-", "_")\<close> and \<open>v.split(" ")\<close>.\<close>

definition str_replace :: "string \<Rightarrow> char \<Rightarrow> char \<Rightarrow> string" where
  "str_replace s a b = map (\<lambda>x. if x = a then b else x) s"

fun str_split :: "string \<Rightarrow> char \<Rightarrow> string list" where
  "str_split [] c = [[]]"
| "str_split (x # xs) c =
     (if x = c then [] # str_split xs c
      else (case str_split xs c of
              [] \<Rightarrow> [[x]]
            | w # ws \<Rightarrow> (x # w) # ws))"

text \<open>\<open>s.startswith((p1, ..., pn))\<close> with a tuple of prefixes.\<close>

definition startswith :: "string \<Rightarrow> string list \<Rightarrow> bool" where
  "startswith s ps = list_ex (\<lambda>p. take (length p) s = p) ps"

section \<open>Package\<close>

text \<open>
  The dataclass is declared with \<open>init=False\<close> and its own \<open>__init__\<close>, which sets only the
  attributes it is given. An object is therefore its instance dictionary. The fields
  declared with the default \<open>None\<close> keep that default as a class attribute; the fields
  declared with \<open>field(default_factory=...)\<close> and the two fields without a default have no
  class attribute, so reading one that \<open>__init__\<close> did not set raises \<open>AttributeError\<close>.
\<close>

datatype Package = PackageObj (attrs: "(string \<times> pyval) list")

definition Package_fields :: "string list" where
  "Package_fields =
     [''pkgver'', ''architecture'', ''alternatives'', ''automatic_install'', ''build_date'',
      ''build_options'', ''changelog'', ''conf_files'', ''conflicts'', ''filename_sha256'',
      ''filename_size'', ''hold'', ''homepage'', ''install_date'', ''install_msg'',
      ''install_script'', ''installed_size'', ''license'', ''long_desc'', ''maintainer'',
      ''metafile_sha256'', ''packaged_with'', ''preserve'', ''provides'', ''remove_msg'',
      ''remove_script'', ''replaces'', ''repolock'', ''repository'', ''reverts'',
      ''run_depends'', ''shlib_provides'', ''shlib_requires'', ''short_desc'',
      ''source_revisions'', ''sourcepkg'', ''tags'']"

definition Package_none_defaults :: "string list" where
  "Package_none_defaults =
     [''automatic_install'', ''build_date'', ''changelog'', ''filename_sha256'',
      ''filename_size'', ''hold'', ''homepage'', ''install_date'', ''install_msg'',
      ''install_script'', ''installed_size'', ''license'', ''long_desc'', ''maintainer'',
      ''metafile_sha256'', ''packaged_with'', ''preserve'', ''remove_msg'',
      ''remove_script'', ''repolock'', ''repository'', ''short_desc'',
      ''source_revisions'', ''sourcepkg'']"

definition setattr :: "Package \<Rightarrow> string \<Rightarrow> pyval \<Rightarrow> Package" where
  "setattr self k v = PackageObj (dict_set (attrs self) k v)"

definition getattr :: "Package \<Rightarrow> string \<Rightarrow> error + pyval" where
  "getattr self k =
     (case dict_get (attrs self) k of
        Some v \<Rightarrow> Inr v
      | None \<Rightarrow> if k \<in> set Package_none_defaults then Inr PyNone else Inl (AttributeError k))"

text \<open>
  The \<open>alternatives\<close> branch of \<open>__init__\<close>: \<open>for itm in v\<close> runs over the string \<open>v\<close>
  itself, so \<open>itm\<close> is each character of \<open>v\<close> in turn, as a one-character string.
\<close>

definition alternatives_item :: "char \<Rightarrow> pyval" where
  "alternatives_item ch =
     (let parts = str_partition [ch] (CHR '':'')
      in PyTuple [PyStr (fst parts), PyPath (snd (snd parts))])"

definition normalise_value :: "string \<Rightarrow> pyval \<Rightarrow> pyval" where
  "normalise_value k v =
     (if k = ''alternatives'' then
        (case v of PyStr s \<Rightarrow> PyList (map alternatives_item s) | _ \<Rightarrow> v)
      else if k = ''build_options'' then
        (case v of PyStr s \<Rightarrow> PyList (map PyStr (str_split s (CHR '' ''))) | _ \<Rightarrow> v)
      else v)"

definition init_item :: "string \<times> pyval \<Rightarrow> Package \<Rightarrow> Package" where
  "init_item kv self =
     (let k = (if CHR ''-'' \<in> set (fst kv)
               then str_replace (fst kv) (CHR ''-'') (CHR ''_'') else fst kv)
      in if k \<notin> set Package_fields then self
         else setattr self k (normalise_value k (snd kv)))"

definition Package_init :: "(string \<times> pyval) list \<Rightarrow> Package" where
  "Package_init kwargs = fold init_item kwargs (PackageObj [])"

text \<open>
  The call \<open>Package(**kwargs)\<close>. The signature is \<open>__init__(self, **kwargs)\<close>, so the name
  \<open>self\<close> is bound to the new object and a mapping with the key \<open>self\<close> gives the parameter
  a second value: Python raises \<open>TypeError\<close> before the body runs. The body itself has no
  statement that can raise.
\<close>

definition Package_call :: "(string \<times> pyval) list \<Rightarrow> error + Package" where
  "Package_call kwargs =
     (if dict_contains kwargs ''self'' then Inl TypeError else Inr (Package_init kwargs))"

text \<open>
  The properties \<open>pkgname\<close> and \<open>version\<close>. Of the values above only a \<open>str\<close> has a method
  \<open>rpartition\<close>.
\<close>

definition pkgver_rpartition :: "Package \<Rightarrow> error + string \<times> string \<times> string" where
  "pkgver_rpartition self =
     (case getattr self ''pkgver'' of
        Inl e \<Rightarrow> Inl e
      | Inr (PyStr s) \<Rightarrow> Inr (str_rpartition s (CHR ''-''))
      | Inr _ \<Rightarrow> Inl (AttributeError ''rpartition''))"

definition pkgname :: "Package \<Rightarrow> error + string" where
  "pkgname self = map_sum id fst (pkgver_rpartition self)"

definition version :: "Package \<Rightarrow> error + string" where
  "version self = map_sum id (snd \<circ> snd) (pkgver_rpartition self)"

section \<open>Repository data\<close>

type_synonym RepoIndex = "(string \<times> Package) list"

datatype SignatureType = RSA

record RepoMeta =
  public_key :: string
  public_key_size :: int
  signature_by :: string
  signature_type :: SignatureType

record StageDiff =
  shlib :: string
  provider :: "string option"
  required_by :: "string list"

record Repodata =
  index :: RepoIndex
  stage :: RepoIndex
  meta :: "RepoMeta option"

subsection \<open>Reading the archive\<close>

text \<open>
  \<open>tarfile\<close> and \<open>plistlib\<close> are outside the repository; they are modelled at the
  boundary. A stream handed to \<open>plistlib.load\<close> is represented by what the decoder makes
  of it: the exception it raises or the root value it returns.

  An open archive is what reading its member headers gives (the members in the order of
  the archive, or the exception \<open>tarfile\<close> raises for an archive it cannot read) and
  whether it was opened in stream mode. A member holds a stream (a regular file), is
  without data (a directory, a device, a fifo) or is a symbolic or hard link. For a link,
  \<open>tarfile\<close> looks the target up by its own rules for names; the member holds the outcome
  of that search: the position of the target in the archive, or nothing when the target
  is not in the archive. A position beyond the archive counts as a target that is not
  there.
\<close>

type_synonym stream = "error + pyval"

datatype TarMember = RegularFile stream | NotAFile | Link "nat option"

record TarFile =
  members :: "error + (string \<times> TarMember) list"
  stream_mode :: bool

definition plistlib_load :: "stream \<Rightarrow> error + pyval" where
  "plistlib_load f = f"

text \<open>\<open>name.rstrip(c)\<close> for a one-character argument.\<close>

definition str_rstrip :: "string \<Rightarrow> char \<Rightarrow> string" where
  "str_rstrip s c = rev (dropWhile (\<lambda>x. x = c) (rev s))"

text \<open>
  \<open>TarFile.extractfile\<close> on a member. A link is followed by a nested call of
  \<open>extractfile\<close> on its target, so a chain of links that comes back to itself never ends;
  \<open>depth\<close> is the number of nested calls that the interpreter's stack still allows, after
  which Python raises \<open>RecursionError\<close>. In a stream-mode archive a link raises
  \<open>StreamError\<close>; a link whose target is missing raises \<open>KeyError\<close>.
\<close>

fun extract_member ::
  "nat \<Rightarrow> bool \<Rightarrow> (string \<times> TarMember) list \<Rightarrow> TarMember \<Rightarrow> error + stream option"
where
  "extract_member depth strm ms (RegularFile f) = Inr (Some f)"
| "extract_member depth strm ms NotAFile = Inr None"
| "extract_member depth strm ms (Link None) =
     (if strm then Inl StreamError else Inl KeyError)"
| "extract_member 0 strm ms (Link (Some j)) =
     (if strm then Inl StreamError
      else if j < length ms then Inl RecursionError else Inl KeyError)"
| "extract_member (Suc depth) strm ms (Link (Some j)) =
     (if strm then Inl StreamError
      else if j < length ms then extract_member depth strm ms (snd (ms ! j))
      else Inl KeyError)"

text \<open>
  \<open>TarFile.getmember\<close> takes the last member whose name is the given name without its
  trailing slashes, and raises \<open>KeyError\<close> when there is none.
\<close>

definition getmember :: "(string \<times> TarMember) list \<Rightarrow> string \<Rightarrow> error + TarMember" where
  "getmember ms name =
     (case dict_get (rev ms) (str_rstrip name (CHR ''/'')) of
        None \<Rightarrow> Inl KeyError
      | Some m \<Rightarrow> Inr m)"

definition extractfile :: "nat \<Rightarrow> TarFile \<Rightarrow> string \<Rightarrow> error + stream option" where
  "extractfile depth tar member =
     (case members tar of
        Inl e \<Rightarrow> Inl e
      | Inr ms \<Rightarrow>
          (case getmember ms member of
             Inl e \<Rightarrow> Inl e
           | Inr m \<Rightarrow> extract_member depth (stream_mode tar) ms m))"

definition extract_index :: "nat \<Rightarrow> TarFile \<Rightarrow> string \<Rightarrow> error + stream" where
  "extract_index depth tar fname =
     (case extractfile depth tar fname of
        Inl KeyError \<Rightarrow> Inl (FileNotFoundError fname)
      | Inl e \<Rightarrow> Inl e
      | Inr None \<Rightarrow> Inl (FileNotFoundError ''not a file'')
      | Inr (Some f) \<Rightarrow> Inr f)"

text \<open>
  \<open>_read_index\<close>: \<open>.items()\<close> needs a dict and \<open>Package(**pkg)\<close> a mapping. The \<open>try\<close>
  encloses the whole loop, and \<open>idx\<close> is returned as it stands when \<open>ExpatError\<close> is
  caught; only the decoder raises it, before the first package is stored.
\<close>

fun read_items :: "(string \<times> pyval) list \<Rightarrow> RepoIndex \<Rightarrow> error + RepoIndex" where
  "read_items [] idx = Inr idx"
| "read_items ((name, pkg) # rest) idx =
     (case pkg of
        PyDict kwargs \<Rightarrow>
          (case Package_call kwargs of
             Inl e \<Rightarrow> Inl e
           | Inr obj \<Rightarrow> read_items rest (dict_set idx name obj))
      | _ \<Rightarrow> Inl TypeError)"

definition read_index :: "stream \<Rightarrow> error + RepoIndex" where
  "read_index f =
     (case (case plistlib_load f of
              Inl e \<Rightarrow> Inl e
            | Inr (PyDict items) \<Rightarrow> read_items items []
            | Inr _ \<Rightarrow> Inl (AttributeError ''items''))
      of Inl ExpatError \<Rightarrow> Inr []
       | Inl e \<Rightarrow> Inl e
       | Inr idx \<Rightarrow> Inr idx)"

text \<open>The part of \<open>_read_repodata\<close> that follows the opening of the archive.\<close>

definition read_repodata ::
  "nat \<Rightarrow> TarFile \<Rightarrow> error + RepoIndex \<times> RepoIndex \<times> RepoMeta option"
where
  "read_repodata depth tar =
     (case extract_index depth tar ''index.plist'' of
        Inl e \<Rightarrow> Inl e
      | Inr f \<Rightarrow>
     (case read_index f of
        Inl e \<Rightarrow> Inl e
      | Inr idx \<Rightarrow>
     (case extract_index depth tar ''stage.plist'' of
        Inl e \<Rightarrow> Inl e
      | Inr g \<Rightarrow>
     (case read_index g of
        Inl e \<Rightarrow> Inl e
      | Inr stg \<Rightarrow> Inr (idx, stg, None)))))"

subsection \<open>Choosing the loader\<close>

text \<open>
  The argument of \<open>from_repodata\<close> is a \<open>Path\<close> or a \<open>str\<close>. The two loaders it hands
  over to do input and output; they are parameters here.
\<close>

datatype source = IsPath string | IsStr string

definition from_repodata :: "(string \<Rightarrow> 'r) \<Rightarrow> (string \<Rightarrow> 'r) \<Rightarrow> source \<Rightarrow> 'r" where
  "from_repodata from_local from_remote url =
     (case url of
        IsPath p \<Rightarrow> from_local p
      | IsStr s \<Rightarrow>
          if startswith s [''http://'', ''https://'', ''ftp://'', ''socks5://'']
          then from_remote s
          else from_local s)"

subsection \<open>The staging check\<close>

text \<open>
  \<open>for shlib in pkg.shlib_provides\<close>, for the values of the declared type and those
  Python iterates in the same way: a list or tuple of strings gives its elements, a string
  its characters, a dict its keys; \<open>None\<close>, a number or a path is not iterable. The loop
  variable \<open>pkgname\<close> of the source is \<open>pname\<close> below, \<open>pkgname\<close> being the property above.
\<close>

fun str_items :: "pyval list \<Rightarrow> string list option" where
  "str_items [] = Some []"
| "str_items (PyStr s # xs) = map_option ((#) s) (str_items xs)"
| "str_items (v # xs) = None"

definition strs_of :: "pyval list \<Rightarrow> error + string list" where
  "strs_of xs = (case str_items xs of Some ss \<Rightarrow> Inr ss | None \<Rightarrow> Inl Unmodelled)"

fun iter_strs :: "pyval \<Rightarrow> error + string list" where
  "iter_strs (PyList xs) = strs_of xs"
| "iter_strs (PyTuple xs) = strs_of xs"
| "iter_strs (PyStr s) = Inr (map (\<lambda>c. [c]) s)"
| "iter_strs (PyDict d) = Inr (map fst d)"
| "iter_strs v = Inl TypeError"

definition attr_strs :: "Package \<Rightarrow> string \<Rightarrow> error + string list" where
  "attr_strs pkg k = (case getattr pkg k of Inl e \<Rightarrow> Inl e | Inr v \<Rightarrow> iter_strs v)"

type_synonym old_shlibs = "(string \<times> string) list"
type_synonym used_shlibs = "(string \<times> string list) list"

text \<open>First loop: the libraries that the committed versions of the staged packages provide.\<close>

fun old_provides :: "string \<Rightarrow> string list \<Rightarrow> old_shlibs \<Rightarrow> old_shlibs" where
  "old_provides pname [] old = old"
| "old_provides pname (lib # rest) old = old_provides pname rest (dict_set old lib pname)"

fun find_old_shlibs :: "RepoIndex \<Rightarrow> string list \<Rightarrow> old_shlibs \<Rightarrow> error + old_shlibs" where
  "find_old_shlibs idx [] old = Inr old"
| "find_old_shlibs idx (pname # rest) old =
     (case dict_get idx pname of
        None \<Rightarrow> find_old_shlibs idx rest old
      | Some pkg \<Rightarrow>
          (case attr_strs pkg ''shlib_provides'' of
             Inl e \<Rightarrow> Inl e
           | Inr libs \<Rightarrow> find_old_shlibs idx rest (old_provides pname libs old)))"

text \<open>
  Second loop. \<open>used_shlibs\<close> is a \<open>defaultdict(list)\<close>: \<open>used_shlibs[shlib].append(pkgname)\<close>
  adds the key with an empty list first when it is missing.
\<close>

definition defaultdict_append :: "used_shlibs \<Rightarrow> string \<Rightarrow> string \<Rightarrow> used_shlibs" where
  "defaultdict_append used lib pname =
     dict_set used lib ((case dict_get used lib of None \<Rightarrow> [] | Some reqs \<Rightarrow> reqs) @ [pname])"

fun record_requires :: "string \<Rightarrow> string list \<Rightarrow> old_shlibs \<Rightarrow> used_shlibs \<Rightarrow> used_shlibs" where
  "record_requires pname [] old used = used"
| "record_requires pname (lib # rest) old used =
     (if \<not> dict_contains old lib then record_requires pname rest old used
      else record_requires pname rest old (defaultdict_append used lib pname))"

fun find_used_shlibs ::
  "RepoIndex \<Rightarrow> RepoIndex \<Rightarrow> string list \<Rightarrow> old_shlibs \<Rightarrow> used_shlibs \<Rightarrow> error + used_shlibs"
where
  "find_used_shlibs idx stg [] old used = Inr used"
| "find_used_shlibs idx stg (pname # rest) old used =
     (case (case dict_get stg pname of Some p \<Rightarrow> Some p | None \<Rightarrow> dict_get idx pname) of
        None \<Rightarrow> find_used_shlibs idx stg rest old used
      | Some pkg \<Rightarrow>
          (case attr_strs pkg ''shlib_requires'' of
             Inl e \<Rightarrow> Inl e
           | Inr libs \<Rightarrow> find_used_shlibs idx stg rest old (record_requires pname libs old used)))"

text \<open>The two purges, and the collection of what is left.\<close>

fun purge_provided :: "string list \<Rightarrow> used_shlibs \<Rightarrow> used_shlibs" where
  "purge_provided [] used = used"
| "purge_provided (lib # rest) used =
     (if dict_contains used lib then purge_provided rest (dict_del used lib)
      else purge_provided rest used)"

fun purge_index :: "RepoIndex \<Rightarrow> (string \<times> Package) list \<Rightarrow> used_shlibs \<Rightarrow> error + used_shlibs" where
  "purge_index stg [] used = Inr used"
| "purge_index stg ((pname, pkg) # rest) used =
     (if dict_contains stg pname then purge_index stg rest used
      else (case attr_strs pkg ''shlib_provides'' of
              Inl e \<Rightarrow> Inl e
            | Inr libs \<Rightarrow> purge_index stg rest (purge_provided libs used)))"

fun purge_stage :: "(string \<times> Package) list \<Rightarrow> used_shlibs \<Rightarrow> error + used_shlibs" where
  "purge_stage [] used = Inr used"
| "purge_stage ((pname, pkg) # rest) used =
     (case attr_strs pkg ''shlib_provides'' of
        Inl e \<Rightarrow> Inl e
      | Inr libs \<Rightarrow> purge_stage rest (purge_provided libs used))"

definition collect_inconsistent :: "old_shlibs \<Rightarrow> used_shlibs \<Rightarrow> StageDiff list" where
  "collect_inconsistent old used =
     map (\<lambda>(lib, reqs). \<lparr>shlib = lib, provider = dict_get old lib, required_by = reqs\<rparr>) used"

definition compute_stage :: "Repodata \<Rightarrow> error + StageDiff list" where
  "compute_stage self =
     (if length (stage self) = 0 then Inr []
      else
     (case find_old_shlibs (index self) (map fst (stage self)) [] of
        Inl e \<Rightarrow> Inl e
      | Inr old \<Rightarrow>
     (case find_used_shlibs (index self) (stage self) (map fst (index self)) old [] of
        Inl e \<Rightarrow> Inl e
      | Inr used \<Rightarrow>
     (case purge_index (stage self) (index self) used of
        Inl e \<Rightarrow> Inl e
      | Inr used1 \<Rightarrow>
     (case purge_stage (stage self) used1 of
        Inl e \<Rightarrow> Inl e
      | Inr used2 \<Rightarrow> Inr (collect_inconsistent old used2))))))"

subsection \<open>An example repository\<close>

text \<open>
  The packages of the scenario of the staging check, as \<open>__init__\<close> builds them from
  mappings that give both library lists: \<open>A\<close> provides \<open>libfoo.so.1\<close>, \<open>B\<close> requires it,
  and a staged version of \<open>A\<close> without and with the library.
\<close>

definition example_A :: Package where
  "example_A = Package_init
     [(''pkgver'', PyStr ''A-1.0_1''), (''shlib-provides'', PyList [PyStr ''libfoo.so.1'']),
      (''shlib-requires'', PyList [])]"

definition example_B :: Package where
  "example_B = Package_init
     [(''pkgver'', PyStr ''B-1.0_1''), (''shlib-provides'', PyList []),
      (''shlib-requires'', PyList [PyStr ''libfoo.so.1''])]"

definition staged_A_without :: Package where
  "staged_A_without = Package_init
     [(''pkgver'', PyStr ''A-2.0_1''), (''shlib-provides'', PyList []),
      (''shlib-requires'', PyList [])]"

definition staged_A_with :: Package where
  "staged_A_with = Package_init
     [(''pkgver'', PyStr ''A-2.0_1''), (''shlib-provides'', PyList [PyStr ''libfoo.so.1'']),
      (''shlib-requires'', PyList [])]"

section \<open>Package construction\<close>

lemma alternatives_item_char:
  "alternatives_item c = PyTuple [PyStr (if c = CHR '':'' then [] else [c]), PyPath []]"
  by (simp add: alternatives_item_def str_partition_def)

text \<open>
  Claim C2, at the input \<open>Package(alternatives="x11:/usr/bin/x")\<close>: the loop runs over the
  characters of the string, so the attribute holds fourteen pairs, one for each character,
  every one with the empty path, and the colon gives the pair of the empty name. The input
  \<open>"x11"\<close> gives three pairs. The single pair \<open>("x11", /usr/bin/x)\<close> is not what is stored.
\<close>

theorem Package_call_alternatives_string:
  "Package_call [(''alternatives'', PyStr ''x11:/usr/bin/x'')] =
     Inr (PackageObj [(''alternatives'', PyList
       [PyTuple [PyStr ''x'', PyPath ''''], PyTuple [PyStr ''1'', PyPath ''''],
        PyTuple [PyStr ''1'', PyPath ''''], PyTuple [PyStr '''', PyPath ''''],
        PyTuple [PyStr ''/'', PyPath ''''], PyTuple [PyStr ''u'', PyPath ''''],
        PyTuple [PyStr ''s'', PyPath ''''], PyTuple [PyStr ''r'', PyPath ''''],
        PyTuple [PyStr ''/'', PyPath ''''], PyTuple [PyStr ''b'', PyPath ''''],
        PyTuple [PyStr ''i'', PyPath ''''], PyTuple [PyStr ''n'', PyPath ''''],
        PyTuple [PyStr ''/'', PyPath ''''], PyTuple [PyStr ''x'', PyPath '''']])]) \<and>
   Package_call [(''alternatives'', PyStr ''x11'')] =
     Inr (PackageObj [(''alternatives'', PyList
       [PyTuple [PyStr ''x'', PyPath ''''], PyTuple [PyStr ''1'', PyPath ''''],
        PyTuple [PyStr ''1'', PyPath '''']])])"
  by code_simp

lemma str_replace_has_new: "a \<in> set k \<Longrightarrow> b \<in> set (str_replace k a b)"
  by (auto simp add: str_replace_def)

lemma init_item_keeps_unset:
  assumes "fst kv \<noteq> ''pkgver''" and "''pkgver'' \<notin> fst ` set (attrs self)"
  shows "''pkgver'' \<notin> fst ` set (attrs (init_item kv self))"
proof -
  define k where "k = (if CHR ''-'' \<in> set (fst kv)
               then str_replace (fst kv) (CHR ''-'') (CHR ''_'') else fst kv)"
  have "k \<noteq> ''pkgver''"
  proof (cases "CHR ''-'' \<in> set (fst kv)")
    case True
    then have "CHR ''_'' \<in> set k" by (simp add: k_def str_replace_has_new)
    then show ?thesis by auto
  next
    case False
    then show ?thesis using assms(1) by (simp add: k_def)
  qed
  then show ?thesis
    using assms(2) unfolding init_item_def Let_def k_def [symmetric]
    by (simp add: setattr_def dict_set_def dom_update)
qed

lemma fold_init_item_keeps_unset:
  "''pkgver'' \<notin> fst ` set kwargs \<Longrightarrow> ''pkgver'' \<notin> fst ` set (attrs self) \<Longrightarrow>
   ''pkgver'' \<notin> fst ` set (attrs (fold init_item kwargs self))"
proof (induction kwargs arbitrary: self)
  case Nil
  then show ?case by simp
next
  case (Cons kv kwargs)
  from Cons.prems have "fst kv \<noteq> ''pkgver''" by auto
  from init_item_keeps_unset [OF this Cons.prems(2)] Cons.prems(1) Cons.IH
  show ?case by simp
qed

lemma Package_init_pkgver_unset:
  assumes "\<not> dict_contains kwargs ''pkgver''"
  shows "getattr (Package_init kwargs) ''pkgver'' = Inl (AttributeError ''pkgver'')"
proof -
  from assms have "''pkgver'' \<notin> fst ` set kwargs" by (simp add: dict_contains_def)
  from fold_init_item_keeps_unset [OF this, of "PackageObj []"]
  have "dict_get (attrs (Package_init kwargs)) ''pkgver'' = None"
    by (simp add: Package_init_def dict_get_def map_of_eq_None_iff)
  then show ?thesis by (simp add: getattr_def Package_none_defaults_def)
qed

text \<open>
  For every mapping without the key \<open>self\<close> the call \<open>Package(**kwargs)\<close> returns an
  object; the empty mapping gives the object with no attribute set. The presence of
  \<open>pkgver\<close> is not checked: when the mapping has no key \<open>pkgver\<close>, the object has no such
  attribute, and reading it, \<open>pkgname\<close> or \<open>version\<close> is what raises \<open>AttributeError\<close>.
\<close>

lemma Package_call_without_pkgver:
  "Package_call [] = Inr (PackageObj []) \<and>
   (\<not> dict_contains kwargs ''self'' \<longrightarrow>
      (\<exists>obj. Package_call kwargs = Inr obj \<and>
         (\<not> dict_contains kwargs ''pkgver'' \<longrightarrow>
            getattr obj ''pkgver'' = Inl (AttributeError ''pkgver'') \<and>
            pkgname obj = Inl (AttributeError ''pkgver'') \<and>
            version obj = Inl (AttributeError ''pkgver''))))"
  using Package_init_pkgver_unset [of kwargs]
  by (simp add: Package_call_def Package_init_def dict_contains_def
        pkgname_def version_def pkgver_rpartition_def)

lemma Package_call_without_pkgver_example:
  "\<not> dict_contains [(''architecture'', PyStr ''x86_64''), (''unknown-key'', PyInt 1)] ''self'' \<and>
   \<not> dict_contains [(''architecture'', PyStr ''x86_64''), (''unknown-key'', PyInt 1)] ''pkgver'' \<and>
   (\<exists>obj. Package_call [(''architecture'', PyStr ''x86_64''), (''unknown-key'', PyInt 1)] = Inr obj \<and>
      getattr obj ''architecture'' = Inr (PyStr ''x86_64'') \<and>
      getattr obj ''pkgver'' = Inl (AttributeError ''pkgver'') \<and>
      pkgname obj = Inl (AttributeError ''pkgver'') \<and>
      version obj = Inl (AttributeError ''pkgver''))"
proof -
  let ?kw = "[(''architecture'', PyStr ''x86_64''), (''unknown-key'', PyInt 1)]"
  have h1: "\<not> dict_contains ?kw ''self''" by (simp add: dict_contains_def)
  have h2: "\<not> dict_contains ?kw ''pkgver''" by (simp add: dict_contains_def)
  have a: "Package_call ?kw = Inr (PackageObj [(''architecture'', PyStr ''x86_64'')])"
    by code_simp
  have b: "getattr (PackageObj [(''architecture'', PyStr ''x86_64'')]) ''architecture''
             = Inr (PyStr ''x86_64'')"
    by code_simp
  from Package_call_without_pkgver [of ?kw] h1 h2 a b show ?thesis by auto
qed

text \<open>
  Claim C10, at the input \<open>Package(**{"self": "x"})\<close>. The key \<open>self\<close> is no field, and
  \<open>if k not in names: continue\<close> drops every key that is no field; but the call gives the
  parameter \<open>self\<close> of \<open>__init__(self, **kwargs)\<close> two values, and the construction raises
  \<open>TypeError\<close> where the claim has it succeed for any mapping.
\<close>

theorem Package_call_self_key:
  "Package_call [(''self'', PyStr ''x'')] = Inl TypeError"
  by (simp add: Package_call_def dict_contains_def)

text \<open>Decoding an index hands such a mapping to the constructor as it is.\<close>

lemma read_index_self_key:
  "read_index (Inr (PyDict [(''A'', PyDict [(''pkgver'', PyStr ''A-1.0_1''),
                                            (''self'', PyStr ''x'')])]))
   = Inl TypeError"
  by code_simp

section \<open>Package name and version\<close>

lemma str_rpartition_found:
  assumes "c \<in> set s"
  shows "\<exists>b a. str_rpartition s c = (b, [c], a) \<and> b @ [c] @ a = s \<and> c \<notin> set a"
proof -
  let ?P = "\<lambda>x. x \<noteq> c"
  from assms have "c \<in> set (rev s)" by simp
  then have ne: "dropWhile ?P (rev s) \<noteq> []" by (auto simp: dropWhile_eq_Nil_conv)
  then obtain y front where d: "dropWhile ?P (rev s) = y # front"
    by (cases "dropWhile ?P (rev s)") auto
  have "y = hd (dropWhile ?P (rev s))" using d by simp
  with ne have y: "y = c" using hd_dropWhile [of ?P "rev s"] by auto
  have "takeWhile ?P (rev s) @ c # front = rev s"
    using d y takeWhile_dropWhile_id [of ?P "rev s"] by simp
  then have "rev (takeWhile ?P (rev s) @ c # front) = s" by simp
  then have cat: "rev front @ [c] @ rev (takeWhile ?P (rev s)) = s" by simp
  have nin: "c \<notin> set (rev (takeWhile ?P (rev s)))"
    using set_takeWhileD [of c ?P "rev s"] by auto
  show ?thesis using d cat nin by (simp add: str_rpartition_def)
qed

text \<open>
  Claim C3. When \<open>pkgver\<close> is a string with at least one hyphen, \<open>pkgname\<close> and \<open>version\<close>
  both return, \<open>pkgname + "-" + version\<close> is \<open>pkgver\<close> again, and \<open>version\<close> has no hyphen:
  the split is at the last hyphen, \<open>pkgname\<close> being all that stands before it and \<open>version\<close>
  all that stands after it.
\<close>

theorem pkgname_version_reconstruct:
  assumes "getattr p ''pkgver'' = Inr (PyStr s)" and "CHR ''-'' \<in> set s"
  shows "\<exists>n v. pkgname p = Inr n \<and> version p = Inr v \<and> n @ ''-'' @ v = s \<and> CHR ''-'' \<notin> set v"
proof -
  from str_rpartition_found [OF assms(2)] obtain b a
    where "str_rpartition s (CHR ''-'') = (b, ''-'', a)" "b @ ''-'' @ a = s" "CHR ''-'' \<notin> set a"
    by auto
  then show ?thesis
    using assms(1) by (simp add: pkgname_def version_def pkgver_rpartition_def)
qed

theorem pkgname_version_reconstruct_witness:
  "getattr (Package_init [(''pkgver'', PyStr ''foo-bar-1.0_1'')]) ''pkgver''
     = Inr (PyStr ''foo-bar-1.0_1'')
   \<and> CHR ''-'' \<in> set ''foo-bar-1.0_1''
   \<and> (\<exists>n v. pkgname (Package_init [(''pkgver'', PyStr ''foo-bar-1.0_1'')]) = Inr n
          \<and> version (Package_init [(''pkgver'', PyStr ''foo-bar-1.0_1'')]) = Inr v
          \<and> n @ ''-'' @ v = ''foo-bar-1.0_1'' \<and> CHR ''-'' \<notin> set v)"
proof -
  have h1: "getattr (Package_init [(''pkgver'', PyStr ''foo-bar-1.0_1'')]) ''pkgver''
              = Inr (PyStr ''foo-bar-1.0_1'')"
    by code_simp
  have h2: "CHR ''-'' \<in> set ''foo-bar-1.0_1''" by simp
  from pkgname_version_reconstruct [OF h1 h2] h1 h2 show ?thesis by blast
qed

section \<open>Decoding an index\<close>

text \<open>
  Claim C7, as the code has it. When the property-list decoder raises its XML-level error
  on the stream (\<open>ExpatError\<close>, which is what it raises on an empty stream and whenever
  the XML parser rejects the document), \<open>_read_index\<close> returns the empty index and raises
  nothing; any other exception of the decoder reaches the caller unchanged.
\<close>

theorem read_index_failure_policy:
  "(plistlib_load f = Inl ExpatError \<longrightarrow> read_index f = Inr []) \<and>
   (plistlib_load f = Inl e \<and> e \<noteq> ExpatError \<longrightarrow> read_index f = Inl e)"
  by (cases e) (auto simp add: read_index_def)

theorem read_index_failure_policy_witness:
  "plistlib_load (Inl ExpatError) = Inl ExpatError \<and> read_index (Inl ExpatError) = Inr [] \<and>
   plistlib_load (Inl OSError) = Inl OSError \<and> OSError \<noteq> ExpatError \<and>
   read_index (Inl OSError) = Inl OSError"
  using read_index_failure_policy [of "Inl ExpatError" OSError]
    read_index_failure_policy [of "Inl OSError" OSError]
  by (simp add: plistlib_load_def)

text \<open>
  The decoder reports a document that is well-formed XML but not a valid property list (a
  dict key without a value, an element out of place) by \<open>ValueError\<close>, which
  \<open>except ExpatError\<close> does not catch: for such a stream the error surfaces and no empty
  index is returned.
\<close>

theorem read_index_invalid_plist_counterexample:
  "read_index (Inl ValueError) = Inl ValueError \<and> read_index (Inl ValueError) \<noteq> Inr []"
  by (simp add: read_index_def plistlib_load_def)

section \<open>Extracting a member of the archive\<close>

lemma extract_member_no_FileNotFoundError:
  "extract_member depth strm ms m \<noteq> Inl (FileNotFoundError x)"
  by (induction depth strm ms m rule: extract_member.induct) auto

text \<open>
  Claim C8, as the code has it, for an archive whose members can be read.
  \<open>_extract_index\<close> raises \<open>FileNotFoundError\<close> with the requested name when no member has
  that name (trailing slashes aside) and when the member is a link whose target is not in
  the archive (the archive not being in stream mode). It raises \<open>FileNotFoundError\<close> with
  the fixed text \<open>not a file\<close>, whatever the name was, when the member is without data, as
  a directory is. Every \<open>FileNotFoundError\<close> it raises carries one of the two.
\<close>

theorem extract_index_member_not_found:
  assumes "members tar = Inr ms"
  shows
    "(dict_get (rev ms) (str_rstrip fname (CHR ''/'')) = None \<longrightarrow>
        extract_index depth tar fname = Inl (FileNotFoundError fname)) \<and>
     (dict_get (rev ms) (str_rstrip fname (CHR ''/'')) = Some (Link None) \<and> \<not> stream_mode tar \<longrightarrow>
        extract_index depth tar fname = Inl (FileNotFoundError fname)) \<and>
     (dict_get (rev ms) (str_rstrip fname (CHR ''/'')) = Some NotAFile \<longrightarrow>
        extract_index depth tar fname = Inl (FileNotFoundError ''not a file'')) \<and>
     (extract_index depth tar fname = Inl (FileNotFoundError x) \<longrightarrow>
        x = fname \<or> x = ''not a file'')"
proof (intro conjI impI)
  assume "dict_get (rev ms) (str_rstrip fname (CHR ''/'')) = None"
  with assms show "extract_index depth tar fname = Inl (FileNotFoundError fname)"
    by (simp add: extract_index_def extractfile_def getmember_def)
next
  assume "dict_get (rev ms) (str_rstrip fname (CHR ''/'')) = Some (Link None) \<and> \<not> stream_mode tar"
  with assms show "extract_index depth tar fname = Inl (FileNotFoundError fname)"
    by (simp add: extract_index_def extractfile_def getmember_def)
next
  assume "dict_get (rev ms) (str_rstrip fname (CHR ''/'')) = Some NotAFile"
  with assms show "extract_index depth tar fname = Inl (FileNotFoundError ''not a file'')"
    by (simp add: extract_index_def extractfile_def getmember_def)
next
  assume r: "extract_index depth tar fname = Inl (FileNotFoundError x)"
  show "x = fname \<or> x = ''not a file''"
  proof (cases "getmember ms fname")
    case (Inl e)
    then have "e = KeyError" by (simp add: getmember_def split: option.splits)
    with Inl assms r show ?thesis
      by (simp add: extract_index_def extractfile_def)
  next
    case (Inr m)
    with assms have e: "extractfile depth tar fname = extract_member depth (stream_mode tar) ms m"
      by (simp add: extractfile_def)
    show ?thesis
    proof (cases "extract_member depth (stream_mode tar) ms m")
      case (Inl err)
      with extract_member_no_FileNotFoundError [of depth "stream_mode tar" ms m x]
      have "err \<noteq> FileNotFoundError x" by simp
      with Inl e r show ?thesis
        by (cases err) (simp_all add: extract_index_def)
    next
      case (Inr res)
      with e r show ?thesis
        by (cases res) (simp_all add: extract_index_def)
    qed
  qed
qed

theorem extract_index_member_not_found_witness:
  "extract_index 1000
     \<lparr>members = Inr [(''index.plist'', RegularFile (Inl ExpatError))], stream_mode = False\<rparr>
     ''stage.plist'' = Inl (FileNotFoundError ''stage.plist'') \<and>
   extract_index 1000
     \<lparr>members = Inr [(''index.plist'', Link None)], stream_mode = False\<rparr>
     ''index.plist'' = Inl (FileNotFoundError ''index.plist'') \<and>
   extract_index 1000
     \<lparr>members = Inr [(''index.plist'', NotAFile)], stream_mode = False\<rparr>
     ''index.plist'' = Inl (FileNotFoundError ''not a file'')"
proof -
  have a: "dict_get (rev [(''index.plist'', RegularFile (Inl ExpatError))])
             (str_rstrip ''stage.plist'' (CHR ''/'')) = None"
    by (simp add: dict_get_def str_rstrip_def)
  have l: "dict_get (rev [(''index.plist'', Link None)])
             (str_rstrip ''index.plist'' (CHR ''/'')) = Some (Link None)"
    by (simp add: dict_get_def str_rstrip_def)
  have d: "dict_get (rev [(''index.plist'', NotAFile)])
             (str_rstrip ''index.plist'' (CHR ''/'')) = Some NotAFile"
    by (simp add: dict_get_def str_rstrip_def)
  show ?thesis
    using a l d
      extract_index_member_not_found
        [of "\<lparr>members = Inr [(''index.plist'', RegularFile (Inl ExpatError))], stream_mode = False\<rparr>"
            "[(''index.plist'', RegularFile (Inl ExpatError))]" "''stage.plist''" 1000 "''stage.plist''"]
      extract_index_member_not_found
        [of "\<lparr>members = Inr [(''index.plist'', Link None)], stream_mode = False\<rparr>"
            "[(''index.plist'', Link None)]" "''index.plist''" 1000 "''index.plist''"]
      extract_index_member_not_found
        [of "\<lparr>members = Inr [(''index.plist'', NotAFile)], stream_mode = False\<rparr>"
            "[(''index.plist'', NotAFile)]" "''index.plist''" 1000 "''not a file''"]
    by simp
qed

text \<open>
  The requested name cannot be read off the error when the member is a directory: the
  error raised for the directory \<open>index.plist\<close> is not the one that carries \<open>index.plist\<close>.
\<close>

theorem extract_index_not_a_file_counterexample:
  "extract_index 1000
     \<lparr>members = Inr [(''index.plist'', NotAFile)], stream_mode = False\<rparr> ''index.plist''
     = Inl (FileNotFoundError ''not a file'') \<and>
   extract_index 1000
     \<lparr>members = Inr [(''index.plist'', NotAFile)], stream_mode = False\<rparr> ''index.plist''
     \<noteq> Inl (FileNotFoundError ''index.plist'')"
  by (simp add: extract_index_def extractfile_def getmember_def dict_get_def str_rstrip_def)

text \<open>
  What lies outside these cases. A link is followed to its target: a link to a directory
  gives \<open>not a file\<close>, a link to a link without target gives the requested name. A link
  that is its own target exhausts the stack whatever its size, and the \<open>RecursionError\<close>
  is not caught; nor is the \<open>StreamError\<close> of a link in a stream-mode archive, nor the error
  of an archive that cannot be read.
\<close>

lemma extract_index_through_links:
  "extract_index 1000
     \<lparr>members = Inr [(''dir'', NotAFile), (''index.plist'', Link (Some 0))],
      stream_mode = False\<rparr> ''index.plist'' = Inl (FileNotFoundError ''not a file'') \<and>
   extract_index 1000
     \<lparr>members = Inr [(''gone'', Link None), (''index.plist'', Link (Some 0))],
      stream_mode = False\<rparr> ''index.plist'' = Inl (FileNotFoundError ''index.plist'')"
  by code_simp

lemma extract_member_link_cycle:
  "extract_member depth False [(name, Link (Some 0))] (Link (Some 0)) = Inl RecursionError"
  by (induction depth) simp_all

lemma extract_index_link_cycle:
  "extract_index depth
     \<lparr>members = Inr [(''index.plist'', Link (Some 0))], stream_mode = False\<rparr> ''index.plist''
     = Inl RecursionError"
  by (simp add: extract_index_def extractfile_def getmember_def dict_get_def str_rstrip_def
        extract_member_link_cycle)

lemma extract_index_stream_link:
  "extract_index depth
     \<lparr>members = Inr [(''index.plist'', Link target)], stream_mode = True\<rparr> ''index.plist''
     = Inl StreamError"
  by (cases target; cases depth)
     (simp_all add: extract_index_def extractfile_def getmember_def dict_get_def str_rstrip_def)

lemma extract_index_unreadable:
  "extract_index depth \<lparr>members = Inl ReadError, stream_mode = strm\<rparr> fname = Inl ReadError"
  by (simp add: extract_index_def extractfile_def)

section \<open>Choosing the loader\<close>

lemma startswith_iff: "startswith s ps \<longleftrightarrow> (\<exists>p\<in>set ps. \<exists>rest. s = p @ rest)"
  unfolding startswith_def list_ex_iff
  by (metis append_eq_conv_conj append_take_drop_id)

text \<open>
  Claim C9. \<open>from_repodata\<close> hands a path to \<open>from_local\<close>; it hands a string that begins
  with \<open>http://\<close>, \<open>https://\<close>, \<open>ftp://\<close> or \<open>socks5://\<close> to \<open>from_remote\<close>; and it hands
  every string that begins with none of the four to \<open>from_local\<close>, as a path.
\<close>

theorem from_repodata_dispatch:
  "from_repodata fl fr (IsPath p) = fl p \<and>
   (pre \<in> {''http://'', ''https://'', ''ftp://'', ''socks5://''} \<longrightarrow>
      from_repodata fl fr (IsStr (pre @ rest)) = fr (pre @ rest)) \<and>
   ((\<forall>q\<in>{''http://'', ''https://'', ''ftp://'', ''socks5://''}. \<forall>t. s \<noteq> q @ t) \<longrightarrow>
      from_repodata fl fr (IsStr s) = fl s)"
  by (auto simp add: from_repodata_def startswith_iff)

theorem from_repodata_dispatch_witness:
  "from_repodata Inl Inr (IsPath ''/repo/x86_64-repodata'') = Inl ''/repo/x86_64-repodata'' \<and>
   from_repodata Inl Inr (IsStr ''socks5://host/x86_64-repodata'')
     = Inr ''socks5://host/x86_64-repodata'' \<and>
   from_repodata Inl Inr (IsStr ''file://host/x86_64-repodata'')
     = Inl ''file://host/x86_64-repodata''"
proof -
  have no: "\<forall>q\<in>{''http://'', ''https://'', ''ftp://'', ''socks5://''}.
              \<forall>t. ''file://host/x86_64-repodata'' \<noteq> q @ t"
    by simp
  show ?thesis
    using from_repodata_dispatch
      [of Inl Inr "''/repo/x86_64-repodata''" "''socks5://''" "''host/x86_64-repodata''"
          "''file://host/x86_64-repodata''"] no
    by simp
qed

section \<open>The staging check\<close>

text \<open>
  Claim C5. With an empty stage \<open>compute_stage\<close> returns the empty list, whatever the
  committed index holds.
\<close>

theorem compute_stage_empty_stage: "stage r = [] \<Longrightarrow> compute_stage r = Inr []"
  by (simp add: compute_stage_def)

theorem compute_stage_empty_stage_witness:
  "stage \<lparr>index = [(''A'', Package_init [(''pkgver'', PyStr ''A-1'')])], stage = [], meta = None\<rparr>
     = [] \<and>
   compute_stage
     \<lparr>index = [(''A'', Package_init [(''pkgver'', PyStr ''A-1'')])], stage = [], meta = None\<rparr>
     = Inr []"
  using compute_stage_empty_stage
    [of "\<lparr>index = [(''A'', Package_init [(''pkgver'', PyStr ''A-1'')])], stage = [], meta = None\<rparr>"]
  by simp

subsection \<open>Keys of the working dictionaries\<close>

lemma dict_contains_iff: "dict_contains d k \<longleftrightarrow> k \<in> fst ` set d"
  by (simp add: dict_contains_def)

lemma keys_dict_set: "fst ` set (dict_set d k v) = insert k (fst ` set d)"
  by (simp add: dict_set_def dom_update)

lemma keys_dict_del: "fst ` set (dict_del d k) = fst ` set d - {k}"
  by (auto simp add: dict_del_def AList.delete_eq image_iff)

lemma dict_get_dict_set: "dict_get (dict_set d k v) l = (if l = k then Some v else dict_get d l)"
  by (simp add: dict_get_def dict_set_def update_conv')

lemma dict_get_None_iff: "dict_get d k = None \<longleftrightarrow> k \<notin> fst ` set d"
  by (simp add: dict_get_def map_of_eq_None_iff)

lemma dict_get_old_provides:
  "dict_get (old_provides n libs old) l = (if l \<in> set libs then Some n else dict_get old l)"
  by (induction libs arbitrary: old) (auto simp add: dict_get_dict_set)

lemma keys_record_requires:
  "fst ` set (record_requires n libs old used) = fst ` set used \<union> (set libs \<inter> fst ` set old)"
  by (induction libs arbitrary: used)
     (auto simp add: dict_contains_iff defaultdict_append_def keys_dict_set)

lemma record_requires_unknown:
  "set libs \<inter> fst ` set old = {} \<Longrightarrow> record_requires n libs old used = used"
  by (induction libs arbitrary: used) (auto simp add: dict_contains_iff)

lemma keys_purge_provided:
  "fst ` set (purge_provided libs used) = fst ` set used - set libs"
  by (induction libs arbitrary: used) (auto simp add: dict_contains_iff keys_dict_del)

lemma purge_provided_unused:
  "set libs \<inter> fst ` set used = {} \<Longrightarrow> purge_provided libs used = used"
  by (induction libs arbitrary: used) (auto simp add: dict_contains_iff)

text \<open>The second loop records a library only when the first loop has recorded it.\<close>

lemma keys_find_used_shlibs:
  "find_used_shlibs idx stg names old used = Inr used' \<Longrightarrow>
   fst ` set used' \<subseteq> fst ` set used \<union> fst ` set old"
proof (induction names arbitrary: used)
  case Nil
  then show ?case by auto
next
  case (Cons n names)
  show ?case
  proof (cases "case dict_get stg n of Some p \<Rightarrow> Some p | None \<Rightarrow> dict_get idx n")
    case None
    with Cons show ?thesis by simp
  next
    case (Some pkg)
    with Cons.prems obtain libs where l: "attr_strs pkg ''shlib_requires'' = Inr libs"
      and r: "find_used_shlibs idx stg names old (record_requires n libs old used) = Inr used'"
      by (auto split: sum.splits)
    from Cons.IH [OF r] show ?thesis by (auto simp add: keys_record_requires)
  qed
qed

text \<open>The purges only remove keys, and the second one removes what the stage provides.\<close>

lemma keys_purge_index:
  "purge_index stg items used = Inr used' \<Longrightarrow> fst ` set used' \<subseteq> fst ` set used"
proof (induction items arbitrary: used)
  case Nil
  then show ?case by auto
next
  case (Cons it items)
  obtain n pkg where it: "it = (n, pkg)" by (cases it)
  show ?case
  proof (cases "dict_contains stg n")
    case True
    with Cons it show ?thesis by simp
  next
    case False
    with Cons.prems it obtain libs where "attr_strs pkg ''shlib_provides'' = Inr libs"
      and r: "purge_index stg items (purge_provided libs used) = Inr used'"
      by (auto split: sum.splits)
    from Cons.IH [OF r] show ?thesis by (auto simp add: keys_purge_provided)
  qed
qed

lemma keys_purge_stage:
  "purge_stage items used = Inr used' \<Longrightarrow>
   fst ` set used' \<subseteq> fst ` set used \<and>
   (\<forall>n pkg libs. (n, pkg) \<in> set items \<longrightarrow> attr_strs pkg ''shlib_provides'' = Inr libs \<longrightarrow>
      fst ` set used' \<inter> set libs = {})"
proof (induction items arbitrary: used)
  case Nil
  then show ?case by auto
next
  case (Cons it items)
  obtain n pkg where it: "it = (n, pkg)" by (cases it)
  from Cons.prems it obtain libs where l: "attr_strs pkg ''shlib_provides'' = Inr libs"
    and r: "purge_stage items (purge_provided libs used) = Inr used'"
    by (auto split: sum.splits)
  from Cons.IH [OF r] have sub: "fst ` set used' \<subseteq> fst ` set used - set libs"
    and rest: "\<forall>n pkg libs. (n, pkg) \<in> set items \<longrightarrow>
      attr_strs pkg ''shlib_provides'' = Inr libs \<longrightarrow> fst ` set used' \<inter> set libs = {}"
    by (auto simp add: keys_purge_provided)
  show ?case
  proof (intro conjI allI impI)
    show "fst ` set used' \<subseteq> fst ` set used" using sub by auto
  next
    fix m q ls
    assume m: "(m, q) \<in> set (it # items)" and q: "attr_strs q ''shlib_provides'' = Inr ls"
    show "fst ` set used' \<inter> set ls = {}"
    proof (cases "(m, q) = it")
      case True
      with it l q have "ls = libs" by simp
      with sub show ?thesis by auto
    next
      case False
      with m have "(m, q) \<in> set items" by auto
      with rest q show ?thesis by blast
    qed
  qed
qed

text \<open>
  Every entry of \<open>old_shlibs\<close> that the first loop adds maps a library to a staged package
  whose committed version lists the library in \<open>shlib_provides\<close>.
\<close>

lemma find_old_shlibs_sound:
  assumes "find_old_shlibs idx names old = Inr old'"
    and "dict_get old' l = Some p"
  shows "dict_get old l = Some p \<or>
         (p \<in> set names \<and> (\<exists>pkg libs. dict_get idx p = Some pkg \<and>
            attr_strs pkg ''shlib_provides'' = Inr libs \<and> l \<in> set libs))"
  using assms
proof (induction names arbitrary: old)
  case Nil
  then show ?case by simp
next
  case (Cons n names)
  show ?case
  proof (cases "dict_get idx n")
    case None
    with Cons.prems have "find_old_shlibs idx names old = Inr old'" by simp
    from Cons.IH [OF this Cons.prems(2)] show ?thesis by auto
  next
    case (Some pkg)
    with Cons.prems(1) obtain libs where l: "attr_strs pkg ''shlib_provides'' = Inr libs"
      and r: "find_old_shlibs idx names (old_provides n libs old) = Inr old'"
      by (auto split: sum.splits)
    from Cons.IH [OF r Cons.prems(2)] Some l show ?thesis
      by (auto simp add: dict_get_old_provides split: if_splits)
  qed
qed

lemma set_collect_inconsistent:
  "d \<in> set (collect_inconsistent old used) \<Longrightarrow>
   shlib d \<in> fst ` set used \<and> provider d = dict_get old (shlib d)"
  by (force simp add: collect_inconsistent_def)

subsection \<open>The provider of a finding\<close>

text \<open>
  Claim C4. Whenever \<open>compute_stage\<close> returns, every \<open>StageDiff\<close> of the result has a
  provider, and it is the package that \<open>old_shlibs\<close> holds for the library: a package of
  the stage whose committed version provides the library.
\<close>

theorem compute_stage_provider_present:
  assumes "compute_stage r = Inr res" and "d \<in> set res"
  shows "\<exists>old p pkg libs.
           find_old_shlibs (index r) (map fst (stage r)) [] = Inr old \<and>
           dict_get old (shlib d) = Some p \<and> provider d = Some p \<and>
           dict_contains (stage r) p \<and> dict_get (index r) p = Some pkg \<and>
           attr_strs pkg ''shlib_provides'' = Inr libs \<and> shlib d \<in> set libs"
proof -
  from assms have ne: "stage r \<noteq> []" by (auto simp add: compute_stage_def)
  with assms(1) obtain old used used1 used2
    where o: "find_old_shlibs (index r) (map fst (stage r)) [] = Inr old"
      and u: "find_used_shlibs (index r) (stage r) (map fst (index r)) old [] = Inr used"
      and u1: "purge_index (stage r) (index r) used = Inr used1"
      and u2: "purge_stage (stage r) used1 = Inr used2"
      and res: "res = collect_inconsistent old used2"
    by (auto simp add: compute_stage_def split: sum.splits)
  from set_collect_inconsistent assms(2) res
  have k: "shlib d \<in> fst ` set used2" and pr: "provider d = dict_get old (shlib d)" by auto
  from keys_purge_stage [OF u2] have "fst ` set used2 \<subseteq> fst ` set used1" by blast
  also from keys_purge_index [OF u1] have "\<dots> \<subseteq> fst ` set used" .
  also from keys_find_used_shlibs [OF u] have "\<dots> \<subseteq> fst ` set old" by simp
  finally have "shlib d \<in> fst ` set old" using k by blast
  then obtain p where p: "dict_get old (shlib d) = Some p"
    using dict_get_None_iff [of old "shlib d"] by (cases "dict_get old (shlib d)") auto
  from find_old_shlibs_sound [OF o p]
  obtain pkg libs where "p \<in> set (map fst (stage r))" "dict_get (index r) p = Some pkg"
    "attr_strs pkg ''shlib_provides'' = Inr libs" "shlib d \<in> set libs"
    by (auto simp add: dict_get_def)
  with o p pr show ?thesis by (auto simp add: dict_contains_def)
qed

theorem compute_stage_provider_present_witness:
  "compute_stage \<lparr>index = [(''B'', example_B), (''A'', example_A)],
                   stage = [(''A'', staged_A_without)], meta = None\<rparr>
     = Inr [\<lparr>shlib = ''libfoo.so.1'', provider = Some ''A'', required_by = [''B'']\<rparr>] \<and>
   (\<exists>old p pkg libs.
      find_old_shlibs [(''B'', example_B), (''A'', example_A)] [''A''] [] = Inr old \<and>
      dict_get old ''libfoo.so.1'' = Some p \<and> p = ''A'' \<and>
      dict_contains [(''A'', staged_A_without)] p \<and>
      dict_get [(''B'', example_B), (''A'', example_A)] p = Some pkg \<and>
      attr_strs pkg ''shlib_provides'' = Inr libs \<and> ''libfoo.so.1'' \<in> set libs)"
proof -
  let ?r = "\<lparr>index = [(''B'', example_B), (''A'', example_A)],
             stage = [(''A'', staged_A_without)], meta = None\<rparr>"
  let ?d = "\<lparr>shlib = ''libfoo.so.1'', provider = Some ''A'', required_by = [''B'']\<rparr>"
  have c: "compute_stage ?r = Inr [?d]" by code_simp
  have m: "?d \<in> set [?d]" by simp
  from compute_stage_provider_present [OF c m] c show ?thesis by auto
qed

subsection \<open>The scenario of the replaced provider\<close>

text \<open>
  The committed index holds \<open>A\<close>, which provides the library, and \<open>B\<close>, which requires it
  and does not provide it; the stage holds only a new version of \<open>A\<close>, which neither
  provides nor requires the library. When the library lists that the loops read are
  attributes that are set, \<open>compute_stage\<close> returns exactly one \<open>StageDiff\<close>: the
  library, the provider \<open>A\<close>, and \<open>B\<close> as the one package that requires it.
\<close>

lemma compute_stage_lost_provider:
  assumes "A \<noteq> B"
    and "index r = [(A, pa), (B, pb)] \<or> index r = [(B, pb), (A, pa)]"
    and "stage r = [(A, pa')]"
    and "attr_strs pa ''shlib_provides'' = Inr [lib]"
    and "attr_strs pb ''shlib_requires'' = Inr [lib]"
    and "attr_strs pb ''shlib_provides'' = Inr provs_b" and "lib \<notin> set provs_b"
    and "attr_strs pa' ''shlib_provides'' = Inr provs'" and "lib \<notin> set provs'"
    and "attr_strs pa' ''shlib_requires'' = Inr reqs'" and "lib \<notin> set reqs'"
  shows "compute_stage r = Inr [\<lparr>shlib = lib, provider = Some A, required_by = [B]\<rparr>]"
proof -
  have old: "find_old_shlibs (index r) (map fst (stage r)) [] = Inr [(lib, A)]"
    using assms(1-4) by (auto simp add: dict_get_def dict_set_def)
  have ra: "record_requires A reqs' [(lib, A)] used = used" for used
    using assms(11) by (simp add: record_requires_unknown)
  have rb: "record_requires B [lib] [(lib, A)] [] = [(lib, [B])]"
    by (simp add: dict_contains_def defaultdict_append_def dict_get_def dict_set_def)
  have used: "find_used_shlibs (index r) (stage r) (map fst (index r)) [(lib, A)] []
                = Inr [(lib, [B])]"
    using assms(1-3,5,10) ra rb by (auto simp add: dict_get_def)
  have pb: "purge_provided provs_b [(lib, [B])] = [(lib, [B])]"
    using assms(7) by (simp add: purge_provided_unused)
  have pa: "purge_provided provs' [(lib, [B])] = [(lib, [B])]"
    using assms(9) by (simp add: purge_provided_unused)
  have p1: "purge_index (stage r) (index r) [(lib, [B])] = Inr [(lib, [B])]"
    using assms(1-3,6) pb by (auto simp add: dict_contains_def)
  have p2: "purge_stage (stage r) [(lib, [B])] = Inr [(lib, [B])]"
    using assms(3,8) pa by simp
  show ?thesis
    using assms(3) old used p1 p2
    by (simp add: compute_stage_def collect_inconsistent_def dict_get_def)
qed

lemma compute_stage_lost_provider_example:
  "compute_stage \<lparr>index = [(''A'', example_A), (''B'', example_B)],
                   stage = [(''A'', staged_A_without)], meta = None\<rparr>
     = Inr [\<lparr>shlib = ''libfoo.so.1'', provider = Some ''A'', required_by = [''B'']\<rparr>]"
proof -
  have 1: "attr_strs example_A ''shlib_provides'' = Inr [''libfoo.so.1'']" by code_simp
  have 2: "attr_strs example_B ''shlib_requires'' = Inr [''libfoo.so.1'']" by code_simp
  have 3: "attr_strs example_B ''shlib_provides'' = Inr []" by code_simp
  have 4: "attr_strs staged_A_without ''shlib_provides'' = Inr []" by code_simp
  have 5: "attr_strs staged_A_without ''shlib_requires'' = Inr []" by code_simp
  show ?thesis
    by (rule compute_stage_lost_provider
          [where A = "''A''" and B = "''B''" and pa = example_A and pb = example_B
             and pa' = staged_A_without and provs_b = "[]" and provs' = "[]" and reqs' = "[]",
           OF _ _ _ 1 2 3 _ 4 _ 5]) simp_all
qed

text \<open>
  An attribute that \<open>__init__\<close> has not set is read as \<open>None\<close> when the field is declared
  with that default, and raises otherwise. Decoding an index whose packages carry only
  the keys the scenario names gives packages without the other list.
\<close>

lemma getattr_unset:
  "getattr (Package_init []) ''homepage'' = Inr PyNone \<and>
   getattr (Package_init []) ''shlib_requires'' = Inl (AttributeError ''shlib_requires'')"
  by code_simp

lemma read_index_sparse_example:
  "read_index (Inr (PyDict
     [(''A'', PyDict [(''pkgver'', PyStr ''A-1.0_1''),
                      (''shlib-provides'', PyList [PyStr ''libfoo.so.1''])]),
      (''B'', PyDict [(''pkgver'', PyStr ''B-1.0_1''),
                      (''shlib-requires'', PyList [PyStr ''libfoo.so.1''])])]))
   = Inr [(''A'', PackageObj [(''pkgver'', PyStr ''A-1.0_1''),
                              (''shlib_provides'', PyList [PyStr ''libfoo.so.1''])]),
          (''B'', PackageObj [(''pkgver'', PyStr ''B-1.0_1''),
                              (''shlib_requires'', PyList [PyStr ''libfoo.so.1''])])]"
  by code_simp

text \<open>
  Claim C1, at the scenario built from mappings that carry what the scenario names and
  nothing else: \<open>A\<close> with \<open>shlib-provides\<close>, \<open>B\<close> with \<open>shlib-requires\<close>, the staged \<open>A\<close> with
  neither. The fields are declared with \<open>field(default_factory=list)\<close>, but \<open>__init__\<close> sets
  no default, so the staged \<open>A\<close> has no attribute \<open>shlib_requires\<close>: the second loop reads
  it and \<open>compute_stage\<close> raises \<open>AttributeError\<close> where the claim has one \<open>StageDiff\<close>.
\<close>

theorem compute_stage_lost_provider_unset:
  "compute_stage
     \<lparr>index = [(''A'', Package_init [(''pkgver'', PyStr ''A-1.0_1''),
                                      (''shlib-provides'', PyList [PyStr ''libfoo.so.1''])]),
               (''B'', Package_init [(''pkgver'', PyStr ''B-1.0_1''),
                                      (''shlib-requires'', PyList [PyStr ''libfoo.so.1''])])],
      stage = [(''A'', Package_init [(''pkgver'', PyStr ''A-2.0_1'')])], meta = None\<rparr>
   = Inl (AttributeError ''shlib_requires'')"
  by code_simp

subsection \<open>The scenario of the provider that stays\<close>

text \<open>
  The same index, but the staged version of \<open>A\<close> still provides the library. When the
  lists that the loops read are set, \<open>compute_stage\<close> returns the empty list: only that
  library can be in \<open>used_shlibs\<close>, and the purge over the stage (lemma
  \<open>keys_purge_stage\<close>) removes every library that a staged version provides.
\<close>

lemma compute_stage_still_provided:
  assumes names: "A \<noteq> B"
    and idx: "index r = [(A, pa), (B, pb)] \<or> index r = [(B, pb), (A, pa)]"
    and stg: "stage r = [(A, pa')]"
    and pa_provs: "attr_strs pa ''shlib_provides'' = Inr [lib]"
    and pb_reqs: "attr_strs pb ''shlib_requires'' = Inr reqs_b" and "lib \<in> set reqs_b"
    and pb_provs: "attr_strs pb ''shlib_provides'' = Inr provs_b"
    and pa'_provs: "attr_strs pa' ''shlib_provides'' = Inr provs'" and still: "lib \<in> set provs'"
    and pa'_reqs: "attr_strs pa' ''shlib_requires'' = Inr reqs'"
  shows "compute_stage r = Inr []"
proof -
  have old: "find_old_shlibs (index r) (map fst (stage r)) [] = Inr [(lib, A)]"
    using names idx stg pa_provs by (auto simp add: dict_get_def dict_set_def)
  have "\<exists>u. find_used_shlibs (index r) (stage r) (map fst (index r)) [(lib, A)] [] = Inr u"
    using names idx stg pb_reqs pa'_reqs by (auto simp add: dict_get_def)
  then obtain u
    where u: "find_used_shlibs (index r) (stage r) (map fst (index r)) [(lib, A)] [] = Inr u"
    by blast
  have p1: "purge_index (stage r) (index r) u = Inr (purge_provided provs_b u)"
    using names idx stg pb_provs by (auto simp add: dict_contains_def)
  have p2: "purge_stage (stage r) (purge_provided provs_b u) =
              Inr (purge_provided provs' (purge_provided provs_b u))"
    using stg pa'_provs by simp
  from keys_find_used_shlibs [OF u] have "fst ` set u \<subseteq> {lib}" by simp
  with still have "fst ` set (purge_provided provs' (purge_provided provs_b u)) = {}"
    by (auto simp add: keys_purge_provided)
  then have e: "purge_provided provs' (purge_provided provs_b u) = []" by simp
  show ?thesis
    using stg old u p1 p2 e
    by (simp add: compute_stage_def collect_inconsistent_def)
qed

lemma compute_stage_still_provided_example:
  "compute_stage \<lparr>index = [(''A'', example_A), (''B'', example_B)],
                   stage = [(''A'', staged_A_with)], meta = None\<rparr> = Inr []"
proof -
  have 1: "attr_strs example_A ''shlib_provides'' = Inr [''libfoo.so.1'']" by code_simp
  have 2: "attr_strs example_B ''shlib_requires'' = Inr [''libfoo.so.1'']" by code_simp
  have 3: "attr_strs example_B ''shlib_provides'' = Inr []" by code_simp
  have 4: "attr_strs staged_A_with ''shlib_provides'' = Inr [''libfoo.so.1'']" by code_simp
  have 5: "attr_strs staged_A_with ''shlib_requires'' = Inr []" by code_simp
  show ?thesis
    by (rule compute_stage_still_provided
          [where A = "''A''" and B = "''B''" and pa = example_A and pb = example_B
             and pa' = staged_A_with and provs_b = "[]" and reqs' = "[]",
           OF _ _ _ 1 2 _ 3 4 _ 5]) simp_all
qed

text \<open>
  Claim C6, at the scenario built from mappings that carry what the scenario names and
  nothing else: the staged \<open>A\<close> has \<open>shlib-provides\<close> again but no \<open>shlib-requires\<close>, and \<open>B\<close>
  has no \<open>shlib-provides\<close>. As for C1 the second loop reads the attribute \<open>shlib_requires\<close>
  that \<open>__init__\<close> has not set, and \<open>compute_stage\<close> raises \<open>AttributeError\<close> where the
  claim has the empty list.
\<close>

theorem compute_stage_still_provided_unset:
  "compute_stage
     \<lparr>index = [(''A'', Package_init [(''pkgver'', PyStr ''A-1.0_1''),
                                      (''shlib-provides'', PyList [PyStr ''libfoo.so.1''])]),
               (''B'', Package_init [(''pkgver'', PyStr ''B-1.0_1''),
                                      (''shlib-requires'', PyList [PyStr ''libfoo.so.1''])])],
      stage = [(''A'', Package_init [(''pkgver'', PyStr ''A-2.0_1''),
                                      (''shlib-provides'', PyList [PyStr ''libfoo.so.1''])])],
      meta = None\<rparr>
   = Inl (AttributeError ''shlib_requires'')"
  by code_simp

end
